theory Spec2Isabelle
  imports Complex_Main "HOL-Library.Char_ord" "HOL-Library.List_Lexorder" "HOL-Library.Multiset"
begin

section \<open>The constructor of TimeSliderChoropleth\<close>

text \<open>
  The constructor only asks of a Python value whether it is a \<^verbatim>\<open>dict\<close>. A value is
  therefore a dict, given by its items in insertion order (their keys are distinct), or
  any other value, kept by the text \<^verbatim>\<open>repr\<close> prints for it (the only thing the
  constructor does with such a value is to format it with \<^verbatim>\<open>{!r}\<close>).

  The name, overlay, control and show of the layer and the geographic data go to the
  base class and to \<^verbatim>\<open>GeoJson\<close> as they are, and are left out.
\<close>

datatype 'a py = is_dict: PyDict (dict_items: "(string \<times> 'a) list") | PyOther (repr: string)

text \<open>
  The \<^verbatim>\<open>style_options_dict\<close> of the docstring, with the two keys the script reads. The
  opacity is a number that is only stored and copied, never computed with.
\<close>

record style_options =
  color :: string
  opacity :: real

text \<open>
  \<^verbatim>\<open>{time: style_options_dict}\<close> for one feature, and the whole table: feature id to
  time to style. Timestamps and feature ids are strings, as they are once the table is
  serialised into the script.
\<close>

type_synonym feature_styles = "(string \<times> style_options) list"
type_synonym style_table = "(string \<times> feature_styles) list"

datatype error = ValueError string | AssertionError string

text \<open>\<^verbatim>\<open>'{}'.format(i)\<close> for an integer: its decimal digits, with a minus sign.\<close>

fun digits :: "nat \<Rightarrow> string" where
  "digits n = (if n < 10 then [''0123456789'' ! n]
               else digits (n div 10) @ [''0123456789'' ! (n mod 10)])"

declare digits.simps [simp del]

definition format_int :: "int \<Rightarrow> string" where
  "format_int i = (if i < 0 then CHR ''-'' # digits (nat (- i)) else digits (nat i))"

text \<open>
  Lines 147 to 151: the type checks. The loop over \<^verbatim>\<open>styledict.values()\<close> raises at the
  first value that is not a dict; when it completes, every value is a dict, which the
  model records by returning the table with its values unwrapped.
\<close>

fun check_items :: "(string \<times> 'a py) list \<Rightarrow> error + (string \<times> (string \<times> 'a) list) list" where
  "check_items [] = Inr []"
| "check_items ((k, PyOther r) # rest) =
     Inl (ValueError (''Each item in styledict must be a dictionary, got '' @ r))"
| "check_items ((k, PyDict d) # rest) =
     (case check_items rest of Inl e \<Rightarrow> Inl e | Inr t \<Rightarrow> Inr ((k, d) # t))"

definition check_styledict :: "('a py) py \<Rightarrow> error + (string \<times> (string \<times> 'a) list) list" where
  "check_styledict styledict =
     (case styledict of
        PyOther r \<Rightarrow> Inl (ValueError (''styledict must be a dictionary, got '' @ r))
      | PyDict items \<Rightarrow> check_items items)"

text \<open>
  Lines 153 to 157: the set of timestamps, updated with the keys of every feature, then
  sorted. Python compares \<^verbatim>\<open>str\<close> values code point by code point, a proper prefix
  first, which is the lexicographic order of \<^typ>\<open>string\<close>.
\<close>

definition make_timestamps :: "(string \<times> (string \<times> 'a) list) list \<Rightarrow> string list" where
  "make_timestamps table =
     sorted_list_of_set
       (fold (\<lambda>feature timestamps. timestamps \<union> set (map fst feature)) (map snd table) {})"

text \<open>Lines 162 to 171: the two assertions on the initial index.\<close>

definition check_index :: "string list \<Rightarrow> int \<Rightarrow> error + unit" where
  "check_index timestamps i =
     (if i \<ge> 0 then
        (if i < int (length timestamps) then Inr ()
         else Inl (AssertionError
           (''init_timestamp_index cannot be '' @ format_int i
            @ '' since it is greater than the number of timestamps, which is ''
            @ format_int (int (length timestamps)) @ ''.'')))
      else
        (if - int (length timestamps) \<le> i then Inr ()
         else Inl (AssertionError
           (''When init_timestamp_index is negative, it must be in the range''
            @ '' `[-len(timestamps), -1]` but got '' @ format_int i @ '' instead.''))))"

record widget =
  timestamps :: "string list"
  styledict :: style_table
  highlight :: bool
  init_timestamp_index :: int

definition TimeSliderChoropleth_init ::
    "(style_options py) py \<Rightarrow> int \<Rightarrow> bool \<Rightarrow> error + widget" where
  "TimeSliderChoropleth_init sd i hl =
     (case check_styledict sd of
        Inl e \<Rightarrow> Inl e
      | Inr table \<Rightarrow>
          (let ts = make_timestamps table in
           case check_index ts i of
             Inl e \<Rightarrow> Inl e
           | Inr _ \<Rightarrow> Inr \<lparr>timestamps = ts, styledict = table, highlight = hl,
                           init_timestamp_index = i\<rparr>))"

section \<open>The script of the template\<close>

text \<open>
  The shape drawn for a feature, as far as the script writes to it: the attribute
  \<^verbatim>\<open>fill\<close>, the attribute \<^verbatim>\<open>fill-opacity\<close> and the inline style \<^verbatim>\<open>fill-opacity\<close>.
  An inline style overrides the attribute of the same name.
\<close>

record path =
  fill :: string
  fill_opacity_attr :: real
  fill_opacity_style :: "real option"

definition rendered_opacity :: "path \<Rightarrow> real" where
  "rendered_opacity p =
     (case fill_opacity_style p of Some v \<Rightarrow> v | None \<Rightarrow> fill_opacity_attr p)"

text \<open>
  The state of the page: the variable \<^verbatim>\<open>current_timestamp\<close> and the shapes, by the id of
  their feature (line 128 names the shape of feature \<^verbatim>\<open>f\<close> \<^verbatim>\<open>feature-f\<close>, which is what
  \<^verbatim>\<open>d3.selectAll('#feature-' + f)\<close> selects). A feature of the table that the data does
  not draw has no shape.
\<close>

record page =
  current_timestamp :: "string option"
  paths :: "string \<rightharpoonup> path"

text \<open>\<^verbatim>\<open>xs[i]\<close> in the script: \<^verbatim>\<open>undefined\<close>, here \<^term>\<open>None\<close>, out of range.\<close>

definition js_index :: "'a list \<Rightarrow> int \<Rightarrow> 'a option" where
  "js_index xs i = (if 0 \<le> i \<and> i < int (length xs) then Some (xs ! nat i) else None)"

text \<open>
  The property name \<^verbatim>\<open>k in obj\<close> and \<^verbatim>\<open>obj[k]\<close> look up. An object is read by its own
  keys, those of the serialised dict; timestamps are taken not to be names that every
  object inherits, such as \<^verbatim>\<open>constructor\<close>.
\<close>

definition property_key :: "string option \<Rightarrow> string" where
  "property_key v = (case v of Some s \<Rightarrow> s | None \<Rightarrow> ''undefined'')"

text \<open>Lines 42 to 46: the position the initial index stands for, and the timestamp there.\<close>

definition resolved_index :: "widget \<Rightarrow> int" where
  "resolved_index w =
     (if init_timestamp_index w \<ge> 0 then init_timestamp_index w
      else int (length (timestamps w)) + init_timestamp_index w)"

definition initial_timestamp :: "widget \<Rightarrow> string option" where
  "initial_timestamp w = js_index (timestamps w) (resolved_index w)"

text \<open>
  Lines 49 to 57: the attributes of the range input. \<^verbatim>\<open>attr\<close> writes the text of the value
  it is given, and removes the attribute when the value is \<^verbatim>\<open>undefined\<close>.
\<close>

record range_input =
  attr_min :: string
  attr_max :: string
  attr_value :: "string option"
  attr_step :: string

definition slider :: "widget \<Rightarrow> range_input" where
  "slider w =
     \<lparr>attr_min = format_int 0,
      attr_max = format_int (int (length (timestamps w)) - 1),
      attr_value = initial_timestamp w,
      attr_step = ''1''\<rparr>"

text \<open>\<^verbatim>\<open>d3.selectAll('#feature-' + f)\<close> followed by writes \<open>upd\<close> to what it selects.\<close>

definition select_feature :: "string \<Rightarrow> (path \<Rightarrow> path) \<Rightarrow> (string \<rightharpoonup> path) \<Rightarrow> (string \<rightharpoonup> path)" where
  "select_feature f upd ps = (case ps f of None \<Rightarrow> ps | Some p \<Rightarrow> ps(f \<mapsto> upd p))"

text \<open>
  Lines 70 to 83: one round of the loop of \<^verbatim>\<open>fill_map\<close>, and the loop over the keys of
  \<^verbatim>\<open>styledict\<close>. The defaults \<^verbatim>\<open>'white'\<close> and \<^verbatim>\<open>0\<close> of lines 73 and 74 are overwritten
  before their only use, inside the \<^verbatim>\<open>if\<close>.
\<close>

definition fill_feature ::
    "style_table \<Rightarrow> string option \<Rightarrow> string \<Rightarrow> (string \<rightharpoonup> path) \<Rightarrow> (string \<rightharpoonup> path)" where
  "fill_feature sd ct feature_id ps =
     (case map_of sd feature_id of
        None \<Rightarrow> ps
      | Some style \<Rightarrow>
          (case map_of style (property_key ct) of
             None \<Rightarrow> ps
           | Some entry \<Rightarrow>
               select_feature feature_id
                 (\<lambda>p. p\<lparr>fill := color entry, fill_opacity_style := Some (opacity entry)\<rparr>) ps))"

definition fill_map :: "widget \<Rightarrow> page \<Rightarrow> page" where
  "fill_map w pg =
     pg\<lparr>paths := fold (fill_feature (styledict w) (current_timestamp pg))
                      (map fst (styledict w)) (paths pg)\<rparr>"

text \<open>
  Lines 85 to 90: the slider's input event, with the position of the slider. The date
  shown above the slider is text only and is left out.
\<close>

definition slider_input :: "widget \<Rightarrow> int \<Rightarrow> page \<Rightarrow> page" where
  "slider_input w v pg = fill_map w (pg\<lparr>current_timestamp := js_index (timestamps w) v\<rparr>)"

text \<open>
  Lines 92 to 110: with \<^verbatim>\<open>highlight\<close> set, the template assigns to a global of its own,
  \<^verbatim>\<open>_onEachFeature\<close> after the name of the layer, a function that gives the layer it is
  called with listeners for these three events; without \<^verbatim>\<open>highlight\<close> it assigns nothing.
\<close>

datatype pointer_event = Mouseout | Mouseover | Click

definition onEachFeature_events :: "widget \<Rightarrow> pointer_event list" where
  "onEachFeature_events w = (if highlight w then [Mouseout, Mouseover, Click] else [])"

text \<open>
  A listener is run with the id of the feature whose shape the pointer is on, and leaves
  a page. Lines 114 to 116 make the layer with \<^verbatim>\<open>L.geoJson\<close> applied to the data alone:
  the call has no options, so there is no function under \<^verbatim>\<open>onEachFeature\<close> for Leaflet
  to call on the layers of the features, with or without \<^verbatim>\<open>highlight\<close>, and no shape
  gets a listener. A pointer event on a shape runs the listener of that event when the
  layer has one, and otherwise leaves the page as it is.
\<close>

type_synonym listener = "string \<Rightarrow> page \<Rightarrow> page"

definition geoJson_onEachFeature :: "widget \<Rightarrow> (pointer_event \<times> listener) list option" where
  "geoJson_onEachFeature w = None"

definition layer_listeners :: "widget \<Rightarrow> (pointer_event \<times> listener) list" where
  "layer_listeners w =
     (case geoJson_onEachFeature w of None \<Rightarrow> [] | Some installed \<Rightarrow> installed)"

definition pointer :: "widget \<Rightarrow> pointer_event \<Rightarrow> string \<Rightarrow> page \<Rightarrow> page" where
  "pointer w ev f pg =
     (case map_of (layer_listeners w) ev of None \<Rightarrow> pg | Some run \<Rightarrow> run f pg)"

text \<open>
  Lines 114 to 136: the page once the script has run, from the shapes as the map drew
  them: every shape gets the attribute \<^verbatim>\<open>fill-opacity\<close> 0, then \<^verbatim>\<open>fill_map\<close> runs at the
  initial timestamp.
\<close>

definition script :: "widget \<Rightarrow> (string \<rightharpoonup> path) \<Rightarrow> page" where
  "script w drawn =
     fill_map w
       \<lparr>current_timestamp = initial_timestamp w,
        paths = (\<lambda>f. map_option (\<lambda>p. p\<lparr>fill_opacity_attr := 0\<rparr>) (drawn f))\<rparr>"

section \<open>The table of the running example\<close>

text \<open>
  Feature A has a style at time 100 only, feature B at time 200 only; both are drawn,
  with the fill the map gives a shape by default.
\<close>

definition example_styledict :: "(style_options py) py" where
  "example_styledict =
     PyDict [(''A'', PyDict [(''100'', \<lparr>color = ''red'', opacity = 0.5\<rparr>)]),
             (''B'', PyDict [(''200'', \<lparr>color = ''blue'', opacity = 0.8\<rparr>)])]"

definition example_widget :: widget where
  "example_widget =
     \<lparr>timestamps = [''100'', ''200''],
      styledict = [(''A'', [(''100'', \<lparr>color = ''red'', opacity = 0.5\<rparr>)]),
                   (''B'', [(''200'', \<lparr>color = ''blue'', opacity = 0.8\<rparr>)])],
      highlight = True,
      init_timestamp_index = 0\<rparr>"

definition example_drawn :: "string \<rightharpoonup> path" where
  "example_drawn =
     [''A'' \<mapsto> \<lparr>fill = ''#3388ff'', fill_opacity_attr = 0.2, fill_opacity_style = None\<rparr>,
      ''B'' \<mapsto> \<lparr>fill = ''#3388ff'', fill_opacity_attr = 0.2, fill_opacity_style = None\<rparr>]"

definition example_page :: page where
  "example_page = script example_widget example_drawn"

text \<open>
  A table whose timestamps have different lengths, where the order of strings and the
  order of numbers differ.
\<close>

definition lexi_items :: "(string \<times> style_options py) list" where
  "lexi_items =
     [(''A'', PyDict [(''9'', \<lparr>color = ''red'', opacity = 0.5\<rparr>)]),
      (''B'', PyDict [(''10'', \<lparr>color = ''blue'', opacity = 0.8\<rparr>),
                      (''9'', \<lparr>color = ''green'', opacity = 0.3\<rparr>)])]"

definition lexi_widget :: widget where
  "lexi_widget =
     \<lparr>timestamps = [''10'', ''9''],
      styledict = [(''A'', [(''9'', \<lparr>color = ''red'', opacity = 0.5\<rparr>)]),
                   (''B'', [(''10'', \<lparr>color = ''blue'', opacity = 0.8\<rparr>),
                            (''9'', \<lparr>color = ''green'', opacity = 0.3\<rparr>)])],
      highlight = True,
      init_timestamp_index = 0\<rparr>"

text \<open>The table of the example with feature B mapped to the string \<^verbatim>\<open>'blue'\<close> instead of a dict.\<close>

definition example_bad_items :: "(string \<times> style_options py) list" where
  "example_bad_items =
     [(''A'', PyDict [(''100'', \<lparr>color = ''red'', opacity = 0.5\<rparr>)]),
      (''B'', PyOther (CHR 0x27 # ''blue'' @ [CHR 0x27]))]"

section \<open>Lemmas on the constructor\<close>

lemma check_items_all_dicts:
  "list_all is_dict (map snd its) \<Longrightarrow>
   check_items its = Inr (map (\<lambda>(k, v). (k, dict_items v)) its)"
  by (induction its rule: check_items.induct) simp_all

lemma check_items_Inr_dicts:
  "check_items its = Inr t \<Longrightarrow> list_all is_dict (map snd its)"
  by (induction its arbitrary: t rule: check_items.induct) (auto split: sum.splits)

lemma check_items_Inr:
  "check_items its = Inr t \<longleftrightarrow>
   list_all is_dict (map snd its) \<and> t = map (\<lambda>(k, v). (k, dict_items v)) its"
  using check_items_all_dicts [of its] check_items_Inr_dicts [of its t] by auto

lemma check_items_Inl:
  "find (\<lambda>v. \<not> is_dict v) (map snd its) = Some v \<Longrightarrow>
   check_items its = Inl (ValueError (''Each item in styledict must be a dictionary, got '' @ repr v))"
proof (induction its)
  case Nil
  then show ?case by simp
next
  case (Cons a its)
  obtain k u where a: "a = (k, u)" by (cases a)
  show ?case
  proof (cases u)
    case (PyDict d)
    with a Cons show ?thesis by simp
  next
    case (PyOther r)
    with a Cons.prems show ?thesis by auto
  qed
qed

lemma fold_union_keys:
  "fold (\<lambda>feature timestamps. timestamps \<union> set (map fst feature)) fs A
   = A \<union> (\<Union>feature \<in> set fs. set (map fst feature))"
  by (induction fs arbitrary: A) auto

lemma set_make_timestamps:
  "set (make_timestamps table) = (\<Union>feature \<in> set (map snd table). set (map fst feature))"
  unfolding make_timestamps_def fold_union_keys by simp

lemma sorted_make_timestamps: "sorted_wrt (<) (make_timestamps table)"
  unfolding make_timestamps_def by (rule strict_sorted_list_of_set)

lemma make_timestamps_cong:
  "set table' = set table \<Longrightarrow> make_timestamps table' = make_timestamps table"
  unfolding make_timestamps_def fold_union_keys by simp

lemma format_int_0: "format_int 0 = ''0''"
  by (simp add: format_int_def digits.simps)

lemma example_check: "check_styledict example_styledict = Inr (styledict example_widget)"
  by (simp add: check_styledict_def example_styledict_def example_widget_def)

lemma example_timestamps: "make_timestamps (styledict example_widget) = [''100'', ''200'']"
  by (simp add: make_timestamps_def example_widget_def)

lemma init_Inr:
  "TimeSliderChoropleth_init sd i hl = Inr w \<longleftrightarrow>
     (\<exists>table. check_styledict sd = Inr table
        \<and> check_index (make_timestamps table) i = Inr ()
        \<and> w = \<lparr>timestamps = make_timestamps table, styledict = table, highlight = hl,
                init_timestamp_index = i\<rparr>)"
  by (auto simp: TimeSliderChoropleth_init_def Let_def split: sum.splits)

lemma check_index_Inr:
  "check_index ts i = Inr () \<longleftrightarrow> - int (length ts) \<le> i \<and> i < int (length ts)"
  by (auto simp: check_index_def)

lemma lexi_init: "TimeSliderChoropleth_init (PyDict lexi_items) 0 True = Inr lexi_widget"
  by (simp add: TimeSliderChoropleth_init_def lexi_items_def lexi_widget_def check_styledict_def
      make_timestamps_def check_index_def)

lemma example_widget_init: "TimeSliderChoropleth_init example_styledict 0 True = Inr example_widget"
  by (simp add: TimeSliderChoropleth_init_def example_styledict_def example_widget_def
      check_styledict_def make_timestamps_def check_index_def)

section \<open>Lemmas on the script\<close>

lemma fill_feature_apply:
  "fill_feature sd ct k ps f =
     (if k = f then
        (case map_of sd f of
           None \<Rightarrow> ps f
         | Some style \<Rightarrow>
             (case map_of style (property_key ct) of
                None \<Rightarrow> ps f
              | Some e \<Rightarrow> map_option
                  (\<lambda>p. p\<lparr>fill := color e, fill_opacity_style := Some (opacity e)\<rparr>) (ps f)))
      else ps f)"
  by (auto simp: fill_feature_def select_feature_def split: option.splits)

lemma fold_fill_feature:
  "fold (fill_feature sd ct) ks ps f =
     (if f \<in> set ks then fill_feature sd ct f ps f else ps f)"
proof (induction ks arbitrary: ps)
  case Nil
  show ?case by simp
next
  case (Cons k ks)
  have "fold (fill_feature sd ct) (k # ks) ps f
          = (if f \<in> set ks then fill_feature sd ct f (fill_feature sd ct k ps) f
             else fill_feature sd ct k ps f)"
    by (simp add: Cons.IH)
  also have "\<dots> = (if f \<in> set (k # ks) then fill_feature sd ct f ps f else ps f)"
    by (cases "ps f") (auto simp: fill_feature_apply split: option.splits)
  finally show ?case .
qed

lemma fill_map_path:
  "paths (fill_map w pg) f =
     (case map_of (styledict w) f of
        None \<Rightarrow> paths pg f
      | Some style \<Rightarrow>
          (case map_of style (property_key (current_timestamp pg)) of
             None \<Rightarrow> paths pg f
           | Some e \<Rightarrow> map_option
               (\<lambda>p. p\<lparr>fill := color e, fill_opacity_style := Some (opacity e)\<rparr>) (paths pg f)))"
proof (cases "map_of (styledict w) f")
  case None
  then show ?thesis
    by (simp add: fill_map_def fold_fill_feature fill_feature_apply)
next
  case (Some style)
  then have "f \<in> set (map fst (styledict w))"
    by (metis map_of_eq_None_iff option.distinct(1) set_map)
  with Some show ?thesis
    by (simp add: fill_map_def fold_fill_feature fill_feature_apply)
qed

lemma fill_map_timestamp: "current_timestamp (fill_map w pg) = current_timestamp pg"
  by (simp add: fill_map_def)

lemma slider_input_timestamp:
  "current_timestamp (slider_input w v pg) = js_index (timestamps w) v"
  by (simp add: slider_input_def fill_map_timestamp)

lemma slider_input_path:
  "paths (slider_input w v pg) f =
     (case map_of (styledict w) f of
        None \<Rightarrow> paths pg f
      | Some style \<Rightarrow>
          (case map_of style (property_key (js_index (timestamps w) v)) of
             None \<Rightarrow> paths pg f
           | Some e \<Rightarrow> map_option
               (\<lambda>p. p\<lparr>fill := color e, fill_opacity_style := Some (opacity e)\<rparr>) (paths pg f)))"
  by (simp add: slider_input_def fill_map_path split: option.splits)

lemma example_page_timestamp: "current_timestamp example_page = Some ''100''"
  by (simp add: example_page_def script_def fill_map_timestamp initial_timestamp_def
      resolved_index_def js_index_def example_widget_def)

lemma example_page_A:
  "paths example_page ''A'' =
     Some \<lparr>fill = ''red'', fill_opacity_attr = 0, fill_opacity_style = Some 0.5\<rparr>"
  by (simp add: example_page_def script_def fill_map_path initial_timestamp_def
      resolved_index_def js_index_def property_key_def example_widget_def example_drawn_def)

lemma example_page_B:
  "paths example_page ''B'' =
     Some \<lparr>fill = ''#3388ff'', fill_opacity_attr = 0, fill_opacity_style = None\<rparr>"
  by (simp add: example_page_def script_def fill_map_path initial_timestamp_def
      resolved_index_def js_index_def property_key_def example_widget_def example_drawn_def)

lemma example_highlight: "highlight example_widget"
  by (simp add: example_widget_def)

lemma example_styles_A:
  "map_of (styledict example_widget) ''A'' = Some [(''100'', \<lparr>color = ''red'', opacity = 0.5\<rparr>)]"
  by (simp add: example_widget_def)

lemma example_styles_B:
  "map_of (styledict example_widget) ''B'' = Some [(''200'', \<lparr>color = ''blue'', opacity = 0.8\<rparr>)]"
  by (simp add: example_widget_def)

lemma example_js_index:
  "js_index (timestamps example_widget) 0 = Some ''100''"
  "js_index (timestamps example_widget) 1 = Some ''200''"
  by (simp_all add: js_index_def example_widget_def)

lemma example_no_listeners: "layer_listeners example_widget = []"
  by (simp add: layer_listeners_def geoJson_onEachFeature_def)

lemma example_pointer: "pointer example_widget ev f pg = pg"
  by (simp add: pointer_def example_no_listeners)

section \<open>The constructor: rejected arguments\<close>

text \<open>
  C10: an empty styledict has no timestamps, and the constructor then fails for every
  initial index and either value of highlight: a non-negative index fails the assertion
  \<^verbatim>\<open>init_timestamp_index < len(timestamps)\<close> against the length 0, a negative index
  fails \<^verbatim>\<open>-len(timestamps) <= init_timestamp_index\<close>.
\<close>

theorem empty_styledict_rejected:
  "make_timestamps ([] :: style_table) = [] \<and>
   TimeSliderChoropleth_init (PyDict []) i hl =
     Inl (AssertionError
       (if i \<ge> 0 then
          ''init_timestamp_index cannot be '' @ format_int i
          @ '' since it is greater than the number of timestamps, which is 0.''
        else
          ''When init_timestamp_index is negative, it must be in the range''
          @ '' `[-len(timestamps), -1]` but got '' @ format_int i @ '' instead.''))"
  by (simp add: TimeSliderChoropleth_init_def check_styledict_def make_timestamps_def
      check_index_def format_int_0)

text \<open>
  C8 as stated fails at the example, whose two timestamps make [-2, 1] the valid range:
  the message for the index -4 holds the index and the fixed text
  \<^verbatim>\<open>[-len(timestamps), -1]\<close>; the digit 2 does not occur in it, so neither the bound -2 nor
  the number of timestamps does, and the empty styledict, which has no valid index at
  all, gets the very same message.
\<close>

theorem negative_index_message_lacks_range:
  "check_styledict example_styledict = Inr (styledict example_widget)
   \<and> length (make_timestamps (styledict example_widget)) = 2
   \<and> TimeSliderChoropleth_init example_styledict (- 4) True =
       Inl (AssertionError ''When init_timestamp_index is negative, it must be in the range `[-len(timestamps), -1]` but got -4 instead.'')
   \<and> CHR ''2'' \<notin> set ''When init_timestamp_index is negative, it must be in the range `[-len(timestamps), -1]` but got -4 instead.''
   \<and> TimeSliderChoropleth_init (PyDict []) (- 4) True =
       Inl (AssertionError ''When init_timestamp_index is negative, it must be in the range `[-len(timestamps), -1]` but got -4 instead.'')"
proof -
  have example: "TimeSliderChoropleth_init example_styledict (- 4) True =
       Inl (AssertionError ''When init_timestamp_index is negative, it must be in the range `[-len(timestamps), -1]` but got -4 instead.'')"
    by (simp add: TimeSliderChoropleth_init_def example_check example_timestamps
        check_index_def format_int_def digits.simps)
  have empty: "TimeSliderChoropleth_init (PyDict []) (- 4) True =
       Inl (AssertionError ''When init_timestamp_index is negative, it must be in the range `[-len(timestamps), -1]` but got -4 instead.'')"
    by (simp add: TimeSliderChoropleth_init_def check_styledict_def make_timestamps_def
        check_index_def format_int_def digits.simps)
  have digit: "CHR ''2'' \<notin> set ''When init_timestamp_index is negative, it must be in the range `[-len(timestamps), -1]` but got -4 instead.''"
    by simp
  from example empty digit show ?thesis
    by (simp add: example_check example_timestamps)
qed

text \<open>
  C8, amended: for a styledict that passes the type checks, the constructor fails
  whenever the initial index is at least the number of timestamps or below its negation,
  and the message holds the index. For a non-negative index the message also holds the
  number of timestamps; for a negative index it names the range only by the fixed text
  \<^verbatim>\<open>[-len(timestamps), -1]\<close>, not by its bounds.
\<close>

theorem index_out_of_range_rejected:
  assumes "check_styledict sd = Inr table"
  shows "(i \<ge> int (length (make_timestamps table)) \<longrightarrow>
          TimeSliderChoropleth_init sd i hl =
            Inl (AssertionError
              (''init_timestamp_index cannot be '' @ format_int i
               @ '' since it is greater than the number of timestamps, which is ''
               @ format_int (int (length (make_timestamps table))) @ ''.'')))
       \<and> (i < - int (length (make_timestamps table)) \<longrightarrow>
          TimeSliderChoropleth_init sd i hl =
            Inl (AssertionError
              (''When init_timestamp_index is negative, it must be in the range''
               @ '' `[-len(timestamps), -1]` but got '' @ format_int i @ '' instead.'')))"
  using assms by (auto simp: TimeSliderChoropleth_init_def check_index_def Let_def)

text \<open>
  With the two timestamps of the example, index 2 (one past the end) and index -3 (one
  before the start) are both refused.
\<close>

theorem index_out_of_range_rejected_witness:
  "check_styledict example_styledict = Inr (styledict example_widget)
   \<and> (2::int) \<ge> int (length (make_timestamps (styledict example_widget)))
   \<and> TimeSliderChoropleth_init example_styledict 2 True =
       Inl (AssertionError ''init_timestamp_index cannot be 2 since it is greater than the number of timestamps, which is 2.'')
   \<and> (-3::int) < - int (length (make_timestamps (styledict example_widget)))
   \<and> TimeSliderChoropleth_init example_styledict (-3) True =
       Inl (AssertionError ''When init_timestamp_index is negative, it must be in the range `[-len(timestamps), -1]` but got -3 instead.'')"
  using index_out_of_range_rejected [OF example_check, of 2 True]
    index_out_of_range_rejected [OF example_check, of "-3" True]
  by (simp add: example_check example_timestamps format_int_def digits.simps)

text \<open>
  C9: a styledict that is not a dict, or one of whose values is not a dict, makes the
  constructor fail with a ValueError whose message ends with the repr of the offending
  value (the first one, for a value of the dict). This holds for every initial index,
  valid or not: the error is the one of the type checks, raised before the timestamps
  are made and before the index is looked at.
\<close>

theorem non_mapping_rejected:
  "TimeSliderChoropleth_init (PyOther r) i hl =
     Inl (ValueError (''styledict must be a dictionary, got '' @ r))
   \<and> (\<not> list_all is_dict (map snd its) \<longrightarrow>
        (\<exists>v. find (\<lambda>v. \<not> is_dict v) (map snd its) = Some v
           \<and> TimeSliderChoropleth_init (PyDict its) i hl =
               Inl (ValueError (''Each item in styledict must be a dictionary, got '' @ repr v))))"
proof (intro conjI impI)
  show "TimeSliderChoropleth_init (PyOther r) i hl =
     Inl (ValueError (''styledict must be a dictionary, got '' @ r))"
    by (simp add: TimeSliderChoropleth_init_def check_styledict_def)
next
  assume "\<not> list_all is_dict (map snd its)"
  then have "find (\<lambda>v. \<not> is_dict v) (map snd its) \<noteq> None"
    by (simp add: find_None_iff list_all_iff)
  then obtain v where v: "find (\<lambda>v. \<not> is_dict v) (map snd its) = Some v"
    by blast
  then have "TimeSliderChoropleth_init (PyDict its) i hl =
      Inl (ValueError (''Each item in styledict must be a dictionary, got '' @ repr v))"
    by (simp add: TimeSliderChoropleth_init_def check_styledict_def check_items_Inl)
  with v show "\<exists>v. find (\<lambda>v. \<not> is_dict v) (map snd its) = Some v
           \<and> TimeSliderChoropleth_init (PyDict its) i hl =
               Inl (ValueError (''Each item in styledict must be a dictionary, got '' @ repr v))"
    by blast
qed

text \<open>Feature B mapped to a string, with an initial index that no table of two features allows.\<close>

theorem non_mapping_rejected_witness:
  "\<not> list_all is_dict (map snd example_bad_items)
   \<and> TimeSliderChoropleth_init (PyDict example_bad_items) 7 True =
       Inl (ValueError (''Each item in styledict must be a dictionary, got ''
                        @ CHR 0x27 # ''blue'' @ [CHR 0x27]))"
  using non_mapping_rejected [of "''5''" 7 True example_bad_items]
  by (simp add: example_bad_items_def)

section \<open>The constructor: the timestamps and the initial index\<close>

text \<open>
  C6: when the constructor accepts a styledict, its timestamps are strictly ascending in
  the order of strings (so sorted and without duplicates), they are exactly the keys of
  the per-feature dicts taken together, and a styledict with the same items in another
  order is accepted with the same index and gives the same timestamps. Every value is a
  dict here, since the constructor succeeded.
\<close>

theorem timestamps_sorted_union:
  assumes "TimeSliderChoropleth_init (PyDict its) i hl = Inr w"
  shows "sorted_wrt (<) (timestamps w)
       \<and> set (timestamps w) = (\<Union>v \<in> set (map snd its). set (map fst (dict_items v)))
       \<and> (\<forall>its'. mset its' = mset its \<longrightarrow>
            (\<exists>w'. TimeSliderChoropleth_init (PyDict its') i hl = Inr w'
                \<and> timestamps w' = timestamps w))"
proof -
  let ?unwrap = "map (\<lambda>(k, v). (k, dict_items v))"
  from assms have dicts: "list_all is_dict (map snd its)"
    and idx: "check_index (make_timestamps (?unwrap its)) i = Inr ()"
    and w: "timestamps w = make_timestamps (?unwrap its)"
    by (auto simp: init_Inr check_styledict_def check_items_Inr)
  have sorted: "sorted_wrt (<) (timestamps w)"
    by (simp add: w sorted_make_timestamps)
  have union: "set (timestamps w) = (\<Union>v \<in> set (map snd its). set (map fst (dict_items v)))"
    by (auto simp: w set_make_timestamps) force+
  have perm: "\<exists>w'. TimeSliderChoropleth_init (PyDict its') i hl = Inr w'
                \<and> timestamps w' = timestamps w" if "mset its' = mset its" for its'
  proof -
    from that have s: "set its' = set its" by (rule mset_eq_setD)
    then have d': "list_all is_dict (map snd its')"
      using dicts by (simp add: list_all_iff)
    have t: "make_timestamps (?unwrap its') = make_timestamps (?unwrap its)"
      by (rule make_timestamps_cong) (simp add: s)
    show ?thesis
      by (simp add: init_Inr check_styledict_def check_items_Inr d' t idx w)
  qed
  from sorted union perm show ?thesis by blast
qed

text \<open>
  The keys 9 and 10 come out as 10, 9: the order is that of strings, not of numbers.
  Reversing the features gives the same list.
\<close>

theorem timestamps_sorted_union_witness:
  "(\<exists>w. TimeSliderChoropleth_init (PyDict lexi_items) 0 True = Inr w
      \<and> timestamps w = [''10'', ''9'']
      \<and> sorted_wrt (<) (timestamps w)
      \<and> set (timestamps w) = {''9'', ''10''}
      \<and> mset (rev lexi_items) = mset lexi_items
      \<and> (\<exists>w'. TimeSliderChoropleth_init (PyDict (rev lexi_items)) 0 True = Inr w'
                \<and> timestamps w' = timestamps w))"
  using timestamps_sorted_union [OF lexi_init] lexi_init
  by (auto simp: lexi_items_def lexi_widget_def)

text \<open>
  C7: for a styledict that passes the type checks and has at least one timestamp, index
  0 is accepted and stands for the first timestamp, index -1 for the last, and index -k
  with 1 <= k <= len for position len - k; whenever the constructor succeeds, the
  resolved position lies in [0, len) and the script starts at the timestamp there.
\<close>

theorem initial_index_resolves:
  assumes "check_styledict sd = Inr table" and "make_timestamps table = ts" and "ts \<noteq> []"
  shows "(\<exists>w. TimeSliderChoropleth_init sd 0 hl = Inr w
            \<and> timestamps w = ts \<and> initial_timestamp w = Some (ts ! 0))
       \<and> (\<exists>w. TimeSliderChoropleth_init sd (- 1) hl = Inr w
            \<and> timestamps w = ts \<and> initial_timestamp w = Some (ts ! (length ts - 1)))
       \<and> (\<forall>k. 1 \<le> k \<and> k \<le> length ts \<longrightarrow>
            (\<exists>w. TimeSliderChoropleth_init sd (- int k) hl = Inr w
               \<and> timestamps w = ts
               \<and> resolved_index w = int (length ts - k)
               \<and> initial_timestamp w = Some (ts ! (length ts - k))))
       \<and> (\<forall>i w. TimeSliderChoropleth_init sd i hl = Inr w \<longrightarrow>
            0 \<le> resolved_index w \<and> resolved_index w < int (length ts)
            \<and> initial_timestamp w = Some (ts ! nat (resolved_index w)))"
proof -
  have neg: "\<exists>w. TimeSliderChoropleth_init sd (- int k) hl = Inr w
               \<and> timestamps w = ts
               \<and> resolved_index w = int (length ts - k)
               \<and> initial_timestamp w = Some (ts ! (length ts - k))"
    if "1 \<le> k" "k \<le> length ts" for k
  proof -
    from that have e: "nat (int (length ts) - int k) = length ts - k" by arith
    from that assms show ?thesis
      by (simp add: init_Inr check_index_Inr initial_timestamp_def resolved_index_def
          js_index_def of_nat_diff e)
  qed
  have zero: "\<exists>w. TimeSliderChoropleth_init sd 0 hl = Inr w
            \<and> timestamps w = ts \<and> initial_timestamp w = Some (ts ! 0)"
    using assms
    by (simp add: init_Inr check_index_Inr initial_timestamp_def resolved_index_def
        js_index_def)
  have last: "\<exists>w. TimeSliderChoropleth_init sd (- 1) hl = Inr w
            \<and> timestamps w = ts \<and> initial_timestamp w = Some (ts ! (length ts - 1))"
    using neg [of 1] assms(3) by (auto simp: Suc_le_eq)
  have range: "0 \<le> resolved_index w \<and> resolved_index w < int (length ts)
            \<and> initial_timestamp w = Some (ts ! nat (resolved_index w))"
    if "TimeSliderChoropleth_init sd i hl = Inr w" for i w
    using that assms
    by (auto simp: init_Inr check_index_Inr initial_timestamp_def resolved_index_def
        js_index_def)
  from zero last neg range show ?thesis by blast
qed

text \<open>The two timestamps of the example, at the indices 0, -1 and -2.\<close>

theorem initial_index_resolves_witness:
  "check_styledict example_styledict = Inr (styledict example_widget)
   \<and> make_timestamps (styledict example_widget) = [''100'', ''200'']
   \<and> (\<exists>w. TimeSliderChoropleth_init example_styledict 0 True = Inr w
         \<and> timestamps w = [''100'', ''200''] \<and> initial_timestamp w = Some ''100'')
   \<and> (\<exists>w. TimeSliderChoropleth_init example_styledict (- 1) True = Inr w
         \<and> timestamps w = [''100'', ''200''] \<and> initial_timestamp w = Some ''200'')
   \<and> (\<exists>w. TimeSliderChoropleth_init example_styledict (- 2) True = Inr w
         \<and> timestamps w = [''100'', ''200'']
         \<and> resolved_index w = 0 \<and> initial_timestamp w = Some ''100'')
   \<and> 0 \<le> resolved_index example_widget \<and> resolved_index example_widget < 2"
proof -
  note t = initial_index_resolves [OF example_check example_timestamps, of True]
  from t have zero: "\<exists>w. TimeSliderChoropleth_init example_styledict 0 True = Inr w
         \<and> timestamps w = [''100'', ''200''] \<and> initial_timestamp w = Some ''100''"
    by simp
  from t have last: "\<exists>w. TimeSliderChoropleth_init example_styledict (- 1) True = Inr w
         \<and> timestamps w = [''100'', ''200''] \<and> initial_timestamp w = Some ''200''"
    by simp
  from t have "(1::nat) \<le> 2 \<and> 2 \<le> length [''100'', ''200''] \<longrightarrow>
      (\<exists>w. TimeSliderChoropleth_init example_styledict (- int 2) True = Inr w
         \<and> timestamps w = [''100'', ''200'']
         \<and> resolved_index w = int (length [''100'', ''200''] - 2)
         \<and> initial_timestamp w = Some ([''100'', ''200''] ! (length [''100'', ''200''] - 2)))"
    by blast
  then have neg: "\<exists>w. TimeSliderChoropleth_init example_styledict (- 2) True = Inr w
         \<and> timestamps w = [''100'', ''200'']
         \<and> resolved_index w = 0 \<and> initial_timestamp w = Some ''100''"
    by simp
  from t example_widget_init
  have range: "0 \<le> resolved_index example_widget \<and> resolved_index example_widget < 2"
    by auto
  from zero last neg range show ?thesis
    by (simp add: example_check example_timestamps)
qed

section \<open>The script: the slider and the repaint\<close>

text \<open>
  C4, at the example with initial index 0: the range input gets min 0, max 1 and step 1,
  and the attribute \<^verbatim>\<open>value\<close> gets the timestamp 100 that line 54 passes, while the
  resolved initial index is 0.
\<close>

theorem slider_value_is_timestamp:
  "TimeSliderChoropleth_init example_styledict 0 True = Inr example_widget
   \<and> resolved_index example_widget = 0
   \<and> slider example_widget
       = \<lparr>attr_min = ''0'', attr_max = ''1'', attr_value = Some ''100'', attr_step = ''1''\<rparr>"
  by (simp add: example_widget_init slider_def initial_timestamp_def resolved_index_def
      js_index_def example_widget_def format_int_def digits.simps)

text \<open>
  C1, at the example: after the page has loaded at index 0, feature A is red with
  opacity 0.5. A slider input at index 1 makes 200 the current timestamp, at which A has
  no entry, and A is still red with opacity 0.5 afterwards: \<^verbatim>\<open>fill_map\<close> writes to a
  shape only inside the test for an entry.
\<close>

theorem fill_map_keeps_stale_style:
  "TimeSliderChoropleth_init example_styledict 0 True = Inr example_widget
   \<and> current_timestamp (slider_input example_widget 1 example_page) = Some ''200''
   \<and> map_of (styledict example_widget) ''A'' = Some [(''100'', \<lparr>color = ''red'', opacity = 0.5\<rparr>)]
   \<and> map_of [(''100'', \<lparr>color = ''red'', opacity = 0.5\<rparr>)] ''200'' = None
   \<and> paths (slider_input example_widget 1 example_page) ''A''
       = Some \<lparr>fill = ''red'', fill_opacity_attr = 0, fill_opacity_style = Some 0.5\<rparr>
   \<and> rendered_opacity \<lparr>fill = ''red'', fill_opacity_attr = 0, fill_opacity_style = Some 0.5\<rparr> = 0.5"
  by (simp add: example_widget_init slider_input_timestamp slider_input_path example_js_index
      example_styles_A property_key_def example_page_A rendered_opacity_def)

text \<open>
  C5, at the example: a slider input at index 0 on the loaded page leaves feature B with
  the fill the map drew and no opacity style; the inputs 0, 1, 0 leave B blue with
  opacity 0.8, the style of timestamp 200.
\<close>

theorem slider_round_trip_drifts:
  "paths (slider_input example_widget 0 example_page) ''B''
     = Some \<lparr>fill = ''#3388ff'', fill_opacity_attr = 0, fill_opacity_style = None\<rparr>
   \<and> paths (slider_input example_widget 0
              (slider_input example_widget 1
                (slider_input example_widget 0 example_page))) ''B''
     = Some \<lparr>fill = ''blue'', fill_opacity_attr = 0, fill_opacity_style = Some 0.8\<rparr>"
  by (simp add: slider_input_path example_js_index example_styles_B property_key_def
      example_page_B)

section \<open>The script: the pointer events\<close>

text \<open>
  C3, at the example, which has \<^verbatim>\<open>highlight\<close> set: the template defines a listener for
  mouseover, but the layer has no listener, and a pointer-enter on feature A at index 0
  leaves the page as it is. A keeps the opacity 0.5 of its entry, where the claim
  says 1.
\<close>

theorem pointer_enter_changes_nothing:
  "highlight example_widget
   \<and> Mouseover \<in> set (onEachFeature_events example_widget)
   \<and> layer_listeners example_widget = []
   \<and> pointer example_widget Mouseover ''A'' example_page = example_page
   \<and> paths (pointer example_widget Mouseover ''A'' example_page) ''A''
       = Some \<lparr>fill = ''red'', fill_opacity_attr = 0, fill_opacity_style = Some 0.5\<rparr>
   \<and> rendered_opacity \<lparr>fill = ''red'', fill_opacity_attr = 0, fill_opacity_style = Some 0.5\<rparr> = 0.5"
  by (simp add: example_highlight onEachFeature_events_def example_no_listeners example_pointer
      example_page_A rendered_opacity_def)

text \<open>
  C2, at the example: the pointer enters feature A at index 0, the slider moves to
  index 1, where A has no entry, and the pointer leaves A. The template defines a
  listener for mouseout, but the layer has no listener, so nothing runs on enter or on
  leave, and the repaint of the slider writes nothing for A: at the end A is red with
  opacity 0.5, the style of index 0, where the claim says opacity 0.
\<close>

theorem pointer_leave_keeps_stale_opacity:
  "highlight example_widget
   \<and> Mouseout \<in> set (onEachFeature_events example_widget)
   \<and> layer_listeners example_widget = []
   \<and> current_timestamp
        (pointer example_widget Mouseout ''A''
           (slider_input example_widget 1
              (pointer example_widget Mouseover ''A'' example_page))) = Some ''200''
   \<and> map_of (styledict example_widget) ''A'' = Some [(''100'', \<lparr>color = ''red'', opacity = 0.5\<rparr>)]
   \<and> map_of [(''100'', \<lparr>color = ''red'', opacity = 0.5\<rparr>)] ''200'' = None
   \<and> paths
        (pointer example_widget Mouseout ''A''
           (slider_input example_widget 1
              (pointer example_widget Mouseover ''A'' example_page))) ''A''
       = Some \<lparr>fill = ''red'', fill_opacity_attr = 0, fill_opacity_style = Some 0.5\<rparr>
   \<and> rendered_opacity \<lparr>fill = ''red'', fill_opacity_attr = 0, fill_opacity_style = Some 0.5\<rparr> = 0.5"
  by (simp add: example_highlight onEachFeature_events_def example_no_listeners example_pointer
      slider_input_timestamp slider_input_path example_js_index example_styles_A
      property_key_def example_page_A rendered_opacity_def)

end
